theory Spec2Isabelle
  imports Main "HOL-Library.Word"
begin

section \<open>The stdio bridge of vexide-startup (sysrt/vexide\_sysrt.c)\<close>

text \<open>
  The unit has one function, \<^verbatim>\<open>vexide_set_enomem\<close>, and three pieces of static data:
  the \<^verbatim>\<open>FILE\<close> object \<^verbatim>\<open>__stdio\<close>, the constant pointer \<^verbatim>\<open>stdin\<close> that holds its
  address, and the two symbols \<^verbatim>\<open>stdout\<close> and \<^verbatim>\<open>stderr\<close>, declared as aliases of the
  symbol \<^verbatim>\<open>stdin\<close>. Everything else it names comes from \<^verbatim>\<open><errno.h>\<close> and
  \<^verbatim>\<open><stdio.h>\<close> of the C library, or is defined by the Rust side of the runtime.
\<close>

subsection \<open>What the unit takes from the C library\<close>

text \<open>
  A C \<^verbatim>\<open>int\<close> is 32 bits wide on the target. Threads are numbered.
\<close>

type_synonym c_int = "32 word"
type_synonym thread = nat

text \<open>
  The value of the constant \<^verbatim>\<open>ENOMEM\<close> is fixed by \<^verbatim>\<open><errno.h>\<close>, which is not
  part of the unit: every definition that needs it takes the header's constants as the
  parameter \<open>L\<close>, and every theorem holds for any value of the constant.
\<close>

record libc =
  ENOMEM :: c_int

text \<open>
  The three functions of lines 16 to 18 are declared \<^verbatim>\<open>extern\<close> and defined from Rust.
  A reference to one of them (a function pointer) is the symbol it is linked under.
\<close>

datatype extern_fn = vexide_stdio_putc | vexide_stdio_getc | vexide_stdio_flush

text \<open>
  Modelled from the spec: the setup modes of \<^verbatim>\<open><stdio.h>\<close>, of which the unit names
  \<^verbatim>\<open>_FDEV_SETUP_RW\<close>. The header that defines them is not part of the unit. The spec
  speaks of "a mode flag indicating the stream supports both reading and writing", set
  apart from a stream that is only read or only written.
\<close>

datatype setup_mode = FDEV_SETUP_READ | FDEV_SETUP_WRITE | FDEV_SETUP_RW

fun supports_reading :: "setup_mode \<Rightarrow> bool" where
  "supports_reading FDEV_SETUP_READ = True"
| "supports_reading FDEV_SETUP_WRITE = False"
| "supports_reading FDEV_SETUP_RW = True"

fun supports_writing :: "setup_mode \<Rightarrow> bool" where
  "supports_writing FDEV_SETUP_READ = False"
| "supports_writing FDEV_SETUP_WRITE = True"
| "supports_writing FDEV_SETUP_RW = True"

text \<open>
  Modelled from the spec: the type \<^verbatim>\<open>FILE\<close> of \<^verbatim>\<open><stdio.h>\<close>, which is not part of
  the unit. The spec gives the stream handle four attributes: "a write-callback
  reference, a read-callback reference, a flush-callback reference, and a mode flag".
\<close>

record FILE =
  write_callback :: extern_fn
  read_callback :: extern_fn
  flush_callback :: extern_fn
  mode_flag :: setup_mode

text \<open>
  Modelled from the spec: the macro \<^verbatim>\<open>FDEV_SETUP_STREAM\<close> of \<^verbatim>\<open><stdio.h>\<close>, whose
  expansion is private to the C library and not part of the unit. The spec says that it
  "constructs the opaque stream record by registering three externally defined callback
  functions" and that the handle is configured with the given mode. The arguments come
  in the order of the call at lines 20 to 25: write, read, flush, mode.
\<close>

definition FDEV_SETUP_STREAM ::
  "extern_fn \<Rightarrow> extern_fn \<Rightarrow> extern_fn \<Rightarrow> setup_mode \<Rightarrow> FILE" where
  "FDEV_SETUP_STREAM put get flush rwflag =
     \<lparr>write_callback = put, read_callback = get, flush_callback = flush,
      mode_flag = rwflag\<rparr>"

subsection \<open>Static data: lines 20 to 30\<close>

text \<open>
  \<^verbatim>\<open>static FILE __stdio = FDEV_SETUP_STREAM(vexide_stdio_putc, vexide_stdio_getc,
  vexide_stdio_flush, _FDEV_SETUP_RW);\<close> An Isabelle name cannot start with an underscore:
  the initial value of \<^verbatim>\<open>__stdio\<close> is \<open>stdio_file\<close>.
\<close>

definition stdio_file :: FILE where
  "stdio_file =
     FDEV_SETUP_STREAM vexide_stdio_putc vexide_stdio_getc vexide_stdio_flush FDEV_SETUP_RW"

text \<open>
  The unit defines two data objects, so there are two addresses: that of the
  \<^verbatim>\<open>FILE\<close> object \<^verbatim>\<open>__stdio\<close> and that of the pointer object defined at line 28.
  An object holds a \<^verbatim>\<open>FILE\<close> or a pointer.
\<close>

datatype addr = Addr_stdio | Addr_stdin

datatype obj = File_obj FILE | Ptr_obj addr

text \<open>
  The external data symbols of lines 28 to 30. \<^verbatim>\<open>stdin\<close> is the definition of an
  object; \<^verbatim>\<open>stdout\<close> and \<^verbatim>\<open>stderr\<close> carry \<^verbatim>\<open>[[gnu::alias("stdin")]]\<close>, which makes
  each of them another name of the symbol it aliases.
\<close>

datatype symbol = stdin | stdout | stderr

datatype linkage = Defined addr | Alias symbol

fun symbols :: "symbol \<Rightarrow> linkage" where
  "symbols stdin = Defined Addr_stdin"
| "symbols stdout = Alias stdin"
| "symbols stderr = Alias stdin"

text \<open>
  The address a symbol is linked at. An alias takes the address of its target, which
  must itself be a definition; otherwise the link fails (\<open>None\<close>).
\<close>

definition address_of :: "symbol \<Rightarrow> addr option" where
  "address_of x =
     (case symbols x of
        Defined a \<Rightarrow> Some a
      | Alias y \<Rightarrow> (case symbols y of Defined a \<Rightarrow> Some a | Alias z \<Rightarrow> None))"

subsection \<open>Program state\<close>

text \<open>
  \<^verbatim>\<open>errno\<close> is thread-local (lines 9 and 10: "errno is an extern thread\_local"):
  there is one cell for each thread. The memory holds the objects of the unit.
\<close>

record state =
  errno :: "thread \<Rightarrow> c_int"
  memory :: "addr \<Rightarrow> obj option"

text \<open>
  The static data as the loader lays it out: \<^verbatim>\<open>__stdio\<close> holds its initial value, and
  \<^verbatim>\<open>FILE *const stdin = &__stdio;\<close> holds the address of \<^verbatim>\<open>__stdio\<close>.
\<close>

definition static_data :: "addr \<Rightarrow> obj option" where
  "static_data = (\<lambda>a. case a of
       Addr_stdio \<Rightarrow> Some (File_obj stdio_file)
     | Addr_stdin \<Rightarrow> Some (Ptr_obj Addr_stdio))"

text \<open>The state at load time, for any contents \<open>e\<close> of the error cells.\<close>

definition load_time :: "(thread \<Rightarrow> c_int) \<Rightarrow> state" where
  "load_time e = \<lparr>errno = e, memory = static_data\<rparr>"

text \<open>
  Reading a stream identifier: the pointer stored in the object the symbol is linked to.
  \<open>None\<close> when the symbol does not link or the object is not a pointer.
\<close>

definition handle_address :: "state \<Rightarrow> symbol \<Rightarrow> addr option" where
  "handle_address s x =
     (case address_of x of
        None \<Rightarrow> None
      | Some a \<Rightarrow> (case memory s a of Some (Ptr_obj p) \<Rightarrow> Some p | _ \<Rightarrow> None))"

text \<open>
  Dereferencing a stream identifier: the \<^verbatim>\<open>FILE\<close> at the address read from it.
\<close>

definition handle :: "state \<Rightarrow> symbol \<Rightarrow> FILE option" where
  "handle s x =
     (case handle_address s x of
        None \<Rightarrow> None
      | Some p \<Rightarrow> (case memory s p of Some (File_obj f) \<Rightarrow> Some f | _ \<Rightarrow> None))"

subsection \<open>The function: lines 11 to 13\<close>

text \<open>
  \<^verbatim>\<open>void vexide_set_enomem() { errno = ENOMEM; }\<close> The call runs on a thread \<open>t\<close>,
  and the assignment stores into the error cell of that thread.
\<close>

definition vexide_set_enomem :: "libc \<Rightarrow> thread \<Rightarrow> state \<Rightarrow> state" where
  "vexide_set_enomem L t s = s\<lparr>errno := (errno s)(t := ENOMEM L)\<rparr>"

text \<open>
  The control flow of a call, one step for each statement of the body. The body has one
  statement, so the only step leads from the entry of the function to its return.
\<close>

datatype control = Entry | Return

inductive step :: "libc \<Rightarrow> thread \<Rightarrow> control \<times> state \<Rightarrow> control \<times> state \<Rightarrow> bool"
  for L :: libc and t :: thread where
  assign: "step L t (Entry, s) (Return, s\<lparr>errno := (errno s)(t := ENOMEM L)\<rparr>)"

text \<open>
  Calls from several threads, interleaved: the list names the calling thread of each
  call, in the order the calls take effect.
\<close>

fun run :: "libc \<Rightarrow> thread list \<Rightarrow> state \<Rightarrow> state" where
  "run L [] s = s"
| "run L (t # ts) s = run L ts (vexide_set_enomem L t s)"

text \<open>
  The states the unit can bring about: the state at load time, and any state that a call
  of the function leads to. The static data has no initialiser that runs and no teardown;
  the function is the only code of the unit that runs.
\<close>

inductive reachable :: "libc \<Rightarrow> state \<Rightarrow> bool" for L :: libc where
  loaded: "reachable L (load_time e)"
| called: "reachable L s \<Longrightarrow> reachable L (vexide_set_enomem L t s)"

section \<open>Properties\<close>

subsection \<open>Helper facts\<close>

lemma errno_set_enomem: "errno (vexide_set_enomem L t s) = (errno s)(t := ENOMEM L)"
  by (simp add: vexide_set_enomem_def)

lemma memory_set_enomem: "memory (vexide_set_enomem L t s) = memory s"
  by (simp add: vexide_set_enomem_def)

lemma address_of_symbol: "address_of x = Some Addr_stdin"
  by (cases x) (simp_all add: address_of_def)

lemma handle_address_static:
  assumes "memory s = static_data"
  shows "handle_address s x = Some Addr_stdio"
  using assms by (simp add: handle_address_def address_of_symbol static_data_def)

lemma handle_static:
  assumes "memory s = static_data"
  shows "handle s x = Some stdio_file"
  using assms by (simp add: handle_def handle_address_static static_data_def)

lemma memory_load_time: "memory (load_time e) = static_data"
  by (simp add: load_time_def)

lemma reachable_memory: "reachable L s \<Longrightarrow> memory s = static_data"
proof (induction rule: reachable.induct)
  case (loaded e)
  show ?case by (rule memory_load_time)
next
  case (called s t)
  then show ?case by (simp add: memory_set_enomem)
qed

subsection \<open>The error cell\<close>

text \<open>
  C2: whatever the calling thread's error cell held before (\<open>v\<close>), after
  \<open>vexide_set_enomem\<close> it holds \<open>ENOMEM\<close>. The old value is overwritten: it does not
  enter the result.
\<close>

theorem set_enomem_overwrites:
  "errno (vexide_set_enomem L t s) t = ENOMEM L \<and>
   errno (vexide_set_enomem L t (s\<lparr>errno := (errno s)(t := v)\<rparr>)) t = ENOMEM L"
  by (simp add: errno_set_enomem)

text \<open>
  C9: calling \<open>vexide_set_enomem\<close> twice in a row on a thread leaves the whole state,
  the calling thread's error cell included, as one call leaves it.
\<close>

theorem set_enomem_idempotent:
  "vexide_set_enomem L t (vexide_set_enomem L t s) = vexide_set_enomem L t s \<and>
   errno (vexide_set_enomem L t (vexide_set_enomem L t s)) t =
     errno (vexide_set_enomem L t s) t"
  by (simp add: vexide_set_enomem_def)

text \<open>
  C10: two runs of \<open>vexide_set_enomem\<close>, started in any two states \<open>s1\<close> and \<open>s2\<close> and
  on any two threads, end with the same value in the caller's error cell, the constant
  \<open>ENOMEM\<close>: the value written depends on no input and on no earlier state.
\<close>

theorem set_enomem_state_independent:
  "errno (vexide_set_enomem L t1 s1) t1 = errno (vexide_set_enomem L t2 s2) t2 \<and>
   errno (vexide_set_enomem L t1 s1) t1 = ENOMEM L"
  by (simp add: errno_set_enomem)

text \<open>
  C5: a call of \<open>vexide_set_enomem\<close> cannot fail. From the entry of the function, in
  any state, there is a step; every step from there ends at the return with the one write
  done; and nothing follows the return. So the call ends after one step, in one
  way, and no state stops it or sends it elsewhere.
\<close>

theorem set_enomem_cannot_fail:
  "step L t (Entry, s) (Return, vexide_set_enomem L t s) \<and>
   (step L t (Entry, s) c = (c = (Return, vexide_set_enomem L t s))) \<and>
   \<not> step L t (Return, s) c"
  by (auto simp: vexide_set_enomem_def intro: step.intros elim: step.cases)

subsection \<open>The frame of the function\<close>

text \<open>
  C6: \<open>vexide_set_enomem\<close> changes nothing but the calling thread's error cell. The
  state after the call is the state before it with that one cell given a value; the
  memory is the same, so each stream identifier reads the same address and leads to the
  same \<^verbatim>\<open>FILE\<close>, with the same three callbacks and the same mode flag.
\<close>

theorem set_enomem_frame:
  "(\<exists>v. vexide_set_enomem L t s = s\<lparr>errno := (errno s)(t := v)\<rparr>) \<and>
   memory (vexide_set_enomem L t s) = memory s \<and>
   handle_address (vexide_set_enomem L t s) x = handle_address s x \<and>
   handle (vexide_set_enomem L t s) x = handle s x \<and>
   map_option write_callback (handle (vexide_set_enomem L t s) x) =
     map_option write_callback (handle s x) \<and>
   map_option read_callback (handle (vexide_set_enomem L t s) x) =
     map_option read_callback (handle s x) \<and>
   map_option flush_callback (handle (vexide_set_enomem L t s) x) =
     map_option flush_callback (handle s x) \<and>
   map_option mode_flag (handle (vexide_set_enomem L t s) x) =
     map_option mode_flag (handle s x)"
proof -
  have "vexide_set_enomem L t s = s\<lparr>errno := (errno s)(t := ENOMEM L)\<rparr>"
    by (simp add: vexide_set_enomem_def)
  then have cell: "\<exists>v. vexide_set_enomem L t s = s\<lparr>errno := (errno s)(t := v)\<rparr>"
    by blast
  have addr: "handle_address (vexide_set_enomem L t s) x = handle_address s x"
    unfolding handle_address_def memory_set_enomem by (rule refl)
  have deref: "handle (vexide_set_enomem L t s) x = handle s x"
    unfolding handle_def addr memory_set_enomem by (rule refl)
  show ?thesis
    using cell addr deref by (simp add: memory_set_enomem)
qed

text \<open>
  C8: a call of \<open>vexide_set_enomem\<close> on a thread \<open>t\<close> leaves the error cell of any
  other thread \<open>t'\<close> as it was: the cells are one for each thread, and the call writes
  the caller's.
\<close>

theorem set_enomem_thread_isolated:
  "t \<noteq> t' \<Longrightarrow> errno (vexide_set_enomem L t s) t' = errno s t'"
  by (simp add: errno_set_enomem)

theorem set_enomem_thread_isolated_witness:
  "(0::nat) \<noteq> 1 \<and>
   errno (vexide_set_enomem \<lparr>ENOMEM = 12\<rparr> 0 (load_time (\<lambda>t. if t = 1 then 5 else 0))) 1 =
     errno (load_time (\<lambda>t. if t = 1 then 5 else 0)) 1 \<and>
   errno (vexide_set_enomem \<lparr>ENOMEM = 12\<rparr> 0 (load_time (\<lambda>t. if t = 1 then 5 else 0))) 1 = 5"
proof -
  have ne: "(0::nat) \<noteq> 1" by simp
  show ?thesis
    using ne set_enomem_thread_isolated
      [OF ne, of "\<lparr>ENOMEM = 12\<rparr>" "load_time (\<lambda>t. if t = 1 then 5 else 0)"]
    by (simp add: load_time_def)
qed

text \<open>
  The same for calls interleaved in any order: a thread that makes none of the calls
  finds its error cell as it was.
\<close>

lemma run_leaves_other_threads:
  "t' \<notin> set ts \<Longrightarrow> errno (run L ts s) t' = errno s t'"
  by (induction ts arbitrary: s) (simp_all add: errno_set_enomem)

lemma run_sets_callers:
  "t \<in> set ts \<Longrightarrow> errno (run L ts s) t = ENOMEM L"
proof (induction ts arbitrary: s)
  case Nil
  then show ?case by simp
next
  case (Cons u us)
  show ?case
  proof (cases "t \<in> set us")
    case True
    then show ?thesis using Cons.IH by simp
  next
    case False
    with Cons.prems have "u = t" by simp
    with False show ?thesis
      by (simp add: run_leaves_other_threads errno_set_enomem)
  qed
qed

subsection \<open>The stream handle and its three names\<close>

text \<open>
  C1: \<open>stdin\<close>, \<open>stdout\<close> and \<open>stderr\<close> are three names of one object. Any two of
  them (\<open>x\<close> and \<open>y\<close>) are linked at the same address, so in every state reading one
  gives what reading the other gives; at load time each of them holds the address of
  \<^verbatim>\<open>__stdio\<close>, and dereferencing it gives that one \<^verbatim>\<open>FILE\<close>.
\<close>

theorem std_streams_alias:
  "address_of x = address_of y \<and>
   handle_address s x = handle_address s y \<and>
   handle_address (load_time e) x = Some Addr_stdio \<and>
   handle (load_time e) x = Some stdio_file"
proof -
  have same: "address_of x = address_of y"
    by (simp add: address_of_symbol)
  have "handle_address s x = handle_address s y"
    unfolding handle_address_def same by (rule refl)
  then show ?thesis
    using same by (simp add: handle_address_static handle_static memory_load_time)
qed

text \<open>
  C3: the \<^verbatim>\<open>FILE\<close> that the three identifiers lead to holds, in its write, read and
  flush slots, the references to \<open>vexide_stdio_putc\<close>, \<open>vexide_stdio_getc\<close> and
  \<open>vexide_stdio_flush\<close> themselves, three different functions. So whatever the runtime
  links under those names (\<open>impl\<close>, returning a status and a new state of the
  transport), a call through a slot is a call of that function and returns its status.
\<close>

theorem stdio_registers_callbacks:
  fixes impl :: "extern_fn \<Rightarrow> 'a \<Rightarrow> 'w \<Rightarrow> c_int \<times> 'w"
  shows
  "handle (load_time e) x = Some stdio_file \<and>
   write_callback stdio_file = vexide_stdio_putc \<and>
   read_callback stdio_file = vexide_stdio_getc \<and>
   flush_callback stdio_file = vexide_stdio_flush \<and>
   distinct [write_callback stdio_file, read_callback stdio_file, flush_callback stdio_file] \<and>
   impl (write_callback stdio_file) a w = impl vexide_stdio_putc a w \<and>
   impl (read_callback stdio_file) a w = impl vexide_stdio_getc a w \<and>
   impl (flush_callback stdio_file) a w = impl vexide_stdio_flush a w"
  by (simp add: handle_static memory_load_time stdio_file_def FDEV_SETUP_STREAM_def)

text \<open>
  C4: the mode flag of that \<^verbatim>\<open>FILE\<close> is the read-write setup mode: the stream
  supports reading and writing both, and its mode is neither the read-only nor the
  write-only one.
\<close>

theorem stdio_mode_read_write:
  "map_option mode_flag (handle (load_time e) x) = Some FDEV_SETUP_RW \<and>
   mode_flag stdio_file = FDEV_SETUP_RW \<and>
   supports_reading (mode_flag stdio_file) \<and>
   supports_writing (mode_flag stdio_file) \<and>
   mode_flag stdio_file \<noteq> FDEV_SETUP_READ \<and>
   mode_flag stdio_file \<noteq> FDEV_SETUP_WRITE"
  by (simp add: handle_static memory_load_time stdio_file_def FDEV_SETUP_STREAM_def)

text \<open>
  C7: the handle is laid out once, as static data, and stays. In every reachable state
  the memory is the static data of load time: the object \<^verbatim>\<open>__stdio\<close> is there with
  its contents, and each of the three identifiers still holds its address and leads to
  it. No call rebinds an identifier or removes the object.
\<close>

theorem stdio_handle_persists:
  "reachable L s \<Longrightarrow>
     memory s = static_data \<and>
     memory s Addr_stdio = Some (File_obj stdio_file) \<and>
     memory s Addr_stdin = Some (Ptr_obj Addr_stdio) \<and>
     handle_address s x = Some Addr_stdio \<and>
     handle s x = Some stdio_file"
proof -
  assume "reachable L s"
  then have m: "memory s = static_data"
    by (rule reachable_memory)
  have "static_data Addr_stdio = Some (File_obj stdio_file)"
    and "static_data Addr_stdin = Some (Ptr_obj Addr_stdio)"
    by (simp_all add: static_data_def)
  with m show ?thesis
    by (simp add: handle_address_static handle_static)
qed

theorem stdio_handle_persists_witness:
  "reachable \<lparr>ENOMEM = 12\<rparr>
     (vexide_set_enomem \<lparr>ENOMEM = 12\<rparr> 1
       (vexide_set_enomem \<lparr>ENOMEM = 12\<rparr> 0 (load_time (\<lambda>t. 0)))) \<and>
   handle_address
     (vexide_set_enomem \<lparr>ENOMEM = 12\<rparr> 1
       (vexide_set_enomem \<lparr>ENOMEM = 12\<rparr> 0 (load_time (\<lambda>t. 0)))) stderr = Some Addr_stdio \<and>
   handle
     (vexide_set_enomem \<lparr>ENOMEM = 12\<rparr> 1
       (vexide_set_enomem \<lparr>ENOMEM = 12\<rparr> 0 (load_time (\<lambda>t. 0)))) stderr =
     Some \<lparr>write_callback = vexide_stdio_putc, read_callback = vexide_stdio_getc,
           flush_callback = vexide_stdio_flush, mode_flag = FDEV_SETUP_RW\<rparr>"
proof -
  have r: "reachable \<lparr>ENOMEM = 12\<rparr>
     (vexide_set_enomem \<lparr>ENOMEM = 12\<rparr> 1
       (vexide_set_enomem \<lparr>ENOMEM = 12\<rparr> 0 (load_time (\<lambda>t. 0))))"
    by (intro reachable.intros)
  show ?thesis
    using r stdio_handle_persists [OF r, of stderr]
    by (simp add: stdio_file_def FDEV_SETUP_STREAM_def)
qed

end
